theory Spec2Isabelle
  imports Main
begin

section \<open>Gold price bot: subscriber store, snapshot store, dispatcher, detector, commands\<close>

text \<open>
  A shallow embedding of \<^verbatim>\<open>src/index.js\<close>. Every function of the source that a
  property below depends on is translated under its own name. What the source leaves to
  its runtime is made explicit:
  \<^item> the two files are values of type \<open>'a disk_file\<close> (missing, unreadable, unparsable, or
    holding the value that \<^verbatim>\<open>JSON.parse\<close> returns);
  \<^item> the outcome of every \<^verbatim>\<open>axios.post\<close> to the messaging platform is read from an
    oracle, indexed by the number of posts attempted so far, and every attempt is
    appended to a log, the \<open>outbox\<close>;
  \<^item> a \<^verbatim>\<open>try { ... } catch\<close> is a case distinction on a sum type whose left injection
    is the raised error.
  Each operation is modelled as run to completion: the interleaving of two
  \<^verbatim>\<open>async\<close> functions at their \<^verbatim>\<open>await\<close> points is outside this model.
\<close>

subsection \<open>Errors, numbers, files\<close>

datatype js_error = TypeError | RangeError | SyntaxError | IOError | NetworkError

text \<open>
  A price is a JavaScript value: a number, \<^verbatim>\<open>NaN\<close>, or \<^verbatim>\<open>null\<close> (what a stored
  \<^verbatim>\<open>NaN\<close> is read back as). Numbers are whole rupiah: \<open>Num i\<close> is the double whose
  value is the integer \<open>i\<close>.
\<close>

datatype price = Num int | NaN | Null

text \<open>
  A price field of the upstream response, by what \<^verbatim>\<open>parseFloat\<close> makes of it: a number
  (\<open>Parses i\<close> when the double returned has the integer value \<open>i\<close>), or \<^verbatim>\<open>NaN\<close> for a
  missing or non-numeric field. \<^verbatim>\<open>parseFloat\<close> never raises.
\<close>

datatype raw_price = Parses int | NoParse

fun parseFloat :: "raw_price \<Rightarrow> price" where
  "parseFloat (Parses i) = Num i"
| "parseFloat NoParse = NaN"

text \<open>
  The sum or difference of two doubles is the double nearest to the exact result, a tie
  going to the even significand. A significand has 53 bits, so below \<open>2^53\<close>
  (\<open>9007199254740992\<close>) every integer is a double; from there on the doubles are the
  multiples of \<open>ulp n\<close>, the power of two that leaves \<open>n\<close> 53 significant bits.
  \<open>to_double\<close> rounds an integer so. The upper end of the exponent range is not
  modelled: adding or subtracting the margin does not carry a finite double past it
  (the largest double plus 1000 rounds back to the largest double).
\<close>

function ulp :: "nat \<Rightarrow> nat" where
  "ulp n = (if n < 9007199254740992 then 1 else 2 * ulp (n div 2))"
  by pat_completeness auto
termination
  by (relation "measure (\<lambda>n. n)") auto

declare ulp.simps [simp del]

definition round_nat :: "nat \<Rightarrow> nat" where
  "round_nat n =
     (let u = ulp n; q = n div u; r = n mod u
      in if 2 * r < u then q * u
         else if u < 2 * r then (q + 1) * u
         else if even q then q * u
         else (q + 1) * u)"

definition to_double :: "int \<Rightarrow> int" where
  "to_double i = (if i < 0 then - int (round_nat (nat (- i))) else int (round_nat (nat i)))"

text \<open>\<^verbatim>\<open>x -= k\<close> and \<^verbatim>\<open>x += k\<close>; \<^verbatim>\<open>null\<close> converts to \<open>0\<close>, \<^verbatim>\<open>NaN\<close> stays.\<close>

fun js_minus :: "price \<Rightarrow> int \<Rightarrow> price" where
  "js_minus (Num a) k = Num (to_double (a - k))"
| "js_minus NaN k = NaN"
| "js_minus Null k = Num (to_double (0 - k))"

fun js_plus :: "price \<Rightarrow> int \<Rightarrow> price" where
  "js_plus (Num a) k = Num (to_double (a + k))"
| "js_plus NaN k = NaN"
| "js_plus Null k = Num (to_double (0 + k))"

text \<open>\<^verbatim>\<open>a < b\<close> and \<^verbatim>\<open>a > b\<close> on two such values: false whenever one side is \<^verbatim>\<open>NaN\<close>.\<close>

fun to_number :: "price \<Rightarrow> int option" where
  "to_number (Num a) = Some a"
| "to_number NaN = None"
| "to_number Null = Some 0"

definition js_less :: "price \<Rightarrow> price \<Rightarrow> bool" where
  "js_less a b =
     (case to_number a of None \<Rightarrow> False
      | Some x \<Rightarrow> (case to_number b of None \<Rightarrow> False | Some y \<Rightarrow> x < y))"

definition js_greater :: "price \<Rightarrow> price \<Rightarrow> bool" where
  "js_greater a b = js_less b a"

text \<open>What \<^verbatim>\<open>JSON.parse (JSON.stringify v)\<close> returns for a price: \<^verbatim>\<open>NaN\<close> is written as \<^verbatim>\<open>null\<close>.\<close>

fun json_price :: "price \<Rightarrow> price" where
  "json_price (Num a) = Num a"
| "json_price NaN = Null"
| "json_price Null = Null"

text \<open>
  \<^verbatim>\<open>formatPrice\<close>: \<^verbatim>\<open>price.toLocaleString(...)\<close> raises a TypeError on \<^verbatim>\<open>null\<close>. The locale's
  rendering is not modelled: the formatted text is represented by the value it renders.
\<close>

fun formatPrice :: "price \<Rightarrow> js_error + price" where
  "formatPrice Null = Inl TypeError"
| "formatPrice p = Inr p"

datatype 'a disk_file = Missing | Unreadable | Unparsable | Stored 'a

definition existsSync :: "'a disk_file \<Rightarrow> bool" where
  "existsSync f = (f \<noteq> Missing)"

text \<open>\<^verbatim>\<open>JSON.parse(fs.readFileSync(FILE, 'utf8'))\<close>.\<close>

fun read_json :: "'a disk_file \<Rightarrow> js_error + 'a" where
  "read_json Missing = Inl IOError"
| "read_json Unreadable = Inl IOError"
| "read_json Unparsable = Inl SyntaxError"
| "read_json (Stored v) = Inr v"

text \<open>
  \<^verbatim>\<open>fs.writeFileSync(FILE, JSON.stringify(v, null, 2))\<close>: replaces the whole file, or raises
  and leaves the file as it was.
\<close>

definition writeFileSync :: "bool \<Rightarrow> 'a \<Rightarrow> js_error + 'a disk_file" where
  "writeFileSync writable v = (if writable then Inr (Stored v) else Inl IOError)"

subsection \<open>Data model\<close>

record user =
  chatId :: int
  username :: string
  subscribedAt :: string

record snapshot =
  buyPrice :: price
  sellPrice :: price
  lastUpdate :: "string option"

text \<open>What reading a saved snapshot back gives: an undefined \<^verbatim>\<open>lastUpdate\<close> stays undefined.\<close>

definition json_snapshot :: "snapshot \<Rightarrow> snapshot" where
  "json_snapshot d =
     \<lparr>buyPrice = json_price (buyPrice d), sellPrice = json_price (sellPrice d),
      lastUpdate = lastUpdate d\<rparr>"

text \<open>One entry of \<^verbatim>\<open>response.data.data.priceList\<close>.\<close>

datatype price_entry =
  PriceEntry (hargaJual: raw_price) (hargaBeli: raw_price) (entryLastUpdate: "string option")

text \<open>
  \<^verbatim>\<open>response.data\<close>: falsy; truthy without \<^verbatim>\<open>.data\<close>; with \<^verbatim>\<open>.data\<close> but without
  \<^verbatim>\<open>.priceList\<close>; or with the price list.
\<close>

datatype body = BodyFalsy | BodyNoData | BodyNoPriceList | BodyPriceList "price_entry list"

datatype fetch_result = FetchFailed string | Fetched body

datatype chat_ref = IdNum int | IdStr string | IdUndefined

text \<open>The templates of \<^verbatim>\<open>MESSAGES\<close> and the literal replies, with their placeholders' values.\<close>

datatype message =
    PRICE_LIST price price string
  | BUY_PRICE_DROPPED price price
  | SELL_PRICE_INCREASED price price
  | DATA_FETCH_ERROR string
  | WELCOME
  | ALREADY_SUBSCRIBED
  | UNSUBSCRIBED
  | NOT_SUBSCRIBED
  | HELP
  | HELP_AND_ADMIN_HELP
  | BROADCAST_SENT nat
  | UNAUTHORIZED
  | PROVIDE_MESSAGE
  | UNKNOWN_COMMAND
  | USE_HELP
  | Text string

record world =
  users_file :: "user list disk_file"
  data_file :: "snapshot disk_file"
  outbox :: "(chat_ref \<times> message \<times> bool) list"

record env =
  ADMIN_CHAT_ID :: "string option"
  net :: "nat \<Rightarrow> bool"
  users_writable :: bool
  data_writable :: bool
  fetch :: fetch_result
  iso_date :: "string \<Rightarrow> string option"
  now :: string

text \<open>
  \<open>ADMIN_CHAT_ID\<close> is \<^verbatim>\<open>process.env.ADMIN_CHAT_ID\<close> (undefined when unset); \<open>net k\<close> tells
  whether the \<open>k\<close>-th post to the messaging platform succeeds; \<open>fetch\<close> is the outcome of the
  post to the price source; \<open>iso_date s\<close> is \<^verbatim>\<open>new Date(s).toISOString().split('T')[0]\<close>,
  \<open>None\<close> when the date is invalid and \<^verbatim>\<open>toISOString\<close> raises; \<open>now\<close> is
  \<^verbatim>\<open>new Date().toISOString()\<close>. The two flags say whether a write of the file succeeds.
\<close>

subsection \<open>Notification dispatcher and subscriber store\<close>

definition axios_post :: "env \<Rightarrow> world \<Rightarrow> js_error + unit" where
  "axios_post e w = (if net e (length (outbox w)) then Inr () else Inl NetworkError)"

definition sendTelegramMessage :: "env \<Rightarrow> chat_ref \<Rightarrow> message \<Rightarrow> world \<Rightarrow> bool \<times> world" where
  "sendTelegramMessage e c m w =
     (case axios_post e w of
        Inr _ \<Rightarrow> (True, w\<lparr>outbox := outbox w @ [(c, m, True)]\<rparr>)
      | Inl _ \<Rightarrow> (False, w\<lparr>outbox := outbox w @ [(c, m, False)]\<rparr>))"

definition loadUsers :: "env \<Rightarrow> world \<Rightarrow> user list \<times> world" where
  "loadUsers e w =
     (if \<not> existsSync (users_file w) then
        (case writeFileSync (users_writable e) [] of
           Inr f \<Rightarrow> ([], w\<lparr>users_file := f\<rparr>)
         | Inl _ \<Rightarrow> ([], w))
      else
        (case read_json (users_file w) of
           Inr us \<Rightarrow> (us, w)
         | Inl _ \<Rightarrow> ([], w)))"

definition saveUsers :: "env \<Rightarrow> user list \<Rightarrow> world \<Rightarrow> world" where
  "saveUsers e us w =
     (case writeFileSync (users_writable e) us of
        Inr f \<Rightarrow> w\<lparr>users_file := f\<rparr>
      | Inl _ \<Rightarrow> w)"

definition addUser :: "env \<Rightarrow> int \<Rightarrow> string \<Rightarrow> world \<Rightarrow> bool \<times> world" where
  "addUser e c n w =
     (let (users, w1) = loadUsers e w in
      case find (\<lambda>u. chatId u = c) users of
        Some _ \<Rightarrow> (False, w1)
      | None \<Rightarrow>
          (True, saveUsers e (users @ [\<lparr>chatId = c, username = n, subscribedAt = now e\<rparr>]) w1))"

definition removeUser :: "env \<Rightarrow> int \<Rightarrow> world \<Rightarrow> bool \<times> world" where
  "removeUser e c w =
     (let (users, w1) = loadUsers e w;
          initialLength = length users;
          filteredUsers = filter (\<lambda>u. chatId u \<noteq> c) users
      in if length filteredUsers < initialLength
         then (True, saveUsers e filteredUsers w1)
         else (False, w1))"

definition isUserSubscribed :: "env \<Rightarrow> int \<Rightarrow> world \<Rightarrow> bool \<times> world" where
  "isUserSubscribed e c w =
     (let (users, w1) = loadUsers e w in (list_ex (\<lambda>u. chatId u = c) users, w1))"

text \<open>The \<^verbatim>\<open>for (const user of users)\<close> loop of \<^verbatim>\<open>broadcastMessage\<close>.\<close>

fun send_loop :: "env \<Rightarrow> message \<Rightarrow> user list \<Rightarrow> nat \<Rightarrow> world \<Rightarrow> nat \<times> world" where
  "send_loop e m [] sentCount w = (sentCount, w)"
| "send_loop e m (u # us) sentCount w =
     (let (sent, w') = sendTelegramMessage e (IdNum (chatId u)) m w
      in send_loop e m us (if sent then sentCount + 1 else sentCount) w')"

definition broadcastMessage :: "env \<Rightarrow> message \<Rightarrow> world \<Rightarrow> nat \<times> world" where
  "broadcastMessage e m w =
     (let (users, w1) = loadUsers e w in send_loop e m users 0 w1)"

subsection \<open>Snapshot store\<close>

definition saveData :: "env \<Rightarrow> snapshot \<Rightarrow> world \<Rightarrow> world" where
  "saveData e d w =
     (case writeFileSync (data_writable e) (json_snapshot d) of
        Inr f \<Rightarrow> w\<lparr>data_file := f\<rparr>
      | Inl _ \<Rightarrow> w)"

definition loadData :: "world \<Rightarrow> snapshot option" where
  "loadData w =
     (if \<not> existsSync (data_file w) then None
      else (case read_json (data_file w) of Inr d \<Rightarrow> Some d | Inl _ \<Rightarrow> None))"

text \<open>\<^verbatim>\<open>formatDate\<close>: an undefined argument gives an invalid date.\<close>

definition formatDate :: "env \<Rightarrow> string option \<Rightarrow> js_error + string" where
  "formatDate e dateString =
     (case dateString of
        None \<Rightarrow> Inl RangeError
      | Some s \<Rightarrow> (case iso_date e s of None \<Rightarrow> Inl RangeError | Some d \<Rightarrow> Inr d))"

subsection \<open>Price change detector\<close>

definition admin_ref :: "env \<Rightarrow> chat_ref" where
  "admin_ref e = (case ADMIN_CHAT_ID e of None \<Rightarrow> IdUndefined | Some s \<Rightarrow> IdStr s)"

text \<open>\<^verbatim>\<open>fetchData\<close> returns the body, or \<^verbatim>\<open>null\<close> after telling the admin chat.\<close>

definition fetchData :: "env \<Rightarrow> world \<Rightarrow> body option \<times> world" where
  "fetchData e w =
     (case fetch e of
        Fetched b \<Rightarrow> (Some b, w)
      | FetchFailed msg \<Rightarrow>
          (let (_, w') = sendTelegramMessage e (admin_ref e) (DATA_FETCH_ERROR msg) w
           in (None, w')))"

text \<open>\<^verbatim>\<open>currentData.data.priceList[0]\<close>, whose fields are then read.\<close>

fun first_entry :: "body \<Rightarrow> js_error + price_entry" where
  "first_entry BodyFalsy = Inl TypeError"
| "first_entry BodyNoData = Inl TypeError"
| "first_entry BodyNoPriceList = Inl TypeError"
| "first_entry (BodyPriceList []) = Inl TypeError"
| "first_entry (BodyPriceList (x # _)) = Inr x"

text \<open>The two comparisons, each building its message when it holds.\<close>

definition buy_message :: "snapshot \<Rightarrow> snapshot \<Rightarrow> js_error + message list" where
  "buy_message newData previousData =
     (if js_less (buyPrice newData) (buyPrice previousData) then
        (case formatPrice (buyPrice previousData) of
           Inl err \<Rightarrow> Inl err
         | Inr oldBuyPrice \<Rightarrow>
             (case formatPrice (buyPrice newData) of
                Inl err \<Rightarrow> Inl err
              | Inr newBuyPrice \<Rightarrow> Inr [BUY_PRICE_DROPPED oldBuyPrice newBuyPrice]))
      else Inr [])"

definition sell_message :: "snapshot \<Rightarrow> snapshot \<Rightarrow> js_error + message list" where
  "sell_message newData previousData =
     (if js_greater (sellPrice newData) (sellPrice previousData) then
        (case formatPrice (sellPrice previousData) of
           Inl err \<Rightarrow> Inl err
         | Inr oldSellPrice \<Rightarrow>
             (case formatPrice (sellPrice newData) of
                Inl err \<Rightarrow> Inl err
              | Inr newSellPrice \<Rightarrow> Inr [SELL_PRICE_INCREASED oldSellPrice newSellPrice]))
      else Inr [])"

text \<open>\<^verbatim>\<open>for (const message of messages) await broadcastMessage(message)\<close>.\<close>

fun broadcast_each :: "env \<Rightarrow> message list \<Rightarrow> world \<Rightarrow> world" where
  "broadcast_each e [] w = w"
| "broadcast_each e (m # ms) w = broadcast_each e ms (snd (broadcastMessage e m w))"

text \<open>
  The body of the \<^verbatim>\<open>try\<close> block of \<^verbatim>\<open>checkPriceChanges\<close>: the world it leaves, and the
  error it raised, if any.
\<close>

definition check_body :: "env \<Rightarrow> body \<Rightarrow> world \<Rightarrow> world \<times> js_error option" where
  "check_body e currentData w =
     (case first_entry currentData of
        Inl err \<Rightarrow> (w, Some err)
      | Inr x \<Rightarrow>
          (let newData = \<lparr>buyPrice = parseFloat (hargaJual x),
                          sellPrice = parseFloat (hargaBeli x),
                          lastUpdate = entryLastUpdate x\<rparr>
           in case loadData w of
                None \<Rightarrow>
                  (let w1 = saveData e newData w in
                   case formatPrice (buyPrice newData) of
                     Inl err \<Rightarrow> (w1, Some err)
                   | Inr formattedBuyPrice \<Rightarrow>
                       (case formatPrice (sellPrice newData) of
                          Inl err \<Rightarrow> (w1, Some err)
                        | Inr formattedSellPrice \<Rightarrow>
                            (case formatDate e (lastUpdate newData) of
                               Inl err \<Rightarrow> (w1, Some err)
                             | Inr d \<Rightarrow>
                                 (snd (broadcastMessage e
                                         (PRICE_LIST formattedBuyPrice formattedSellPrice d) w1),
                                  None))))
              | Some previousData \<Rightarrow>
                  (let adjusted = newData\<lparr>buyPrice := js_minus (buyPrice newData) 1000,
                                          sellPrice := js_plus (sellPrice newData) 1000\<rparr>
                   in case buy_message adjusted previousData of
                        Inl err \<Rightarrow> (w, Some err)
                      | Inr ms1 \<Rightarrow>
                          (case sell_message adjusted previousData of
                             Inl err \<Rightarrow> (w, Some err)
                           | Inr ms2 \<Rightarrow>
                               (saveData e adjusted (broadcast_each e (ms1 @ ms2) w), None)))))"

definition checkPriceChanges :: "env \<Rightarrow> world \<Rightarrow> world" where
  "checkPriceChanges e w =
     (let (currentData, w1) = fetchData e w in
      case currentData of
        None \<Rightarrow> w1
      | Some BodyFalsy \<Rightarrow> w1
      | Some b \<Rightarrow> fst (check_body e b w1))"

subsection \<open>Command processor\<close>

record tg_message =
  chat_id :: int
  text_field :: "string option"
  from_username :: "string option"

type_synonym update = "tg_message option"

text \<open>\<^verbatim>\<open>chatId.toString()\<close> on an integer: its decimal digits, with a sign when negative.\<close>

fun digits :: "nat \<Rightarrow> string" where
  "digits n =
     (if n < 10 then [''0123456789'' ! n]
      else digits (n div 10) @ [''0123456789'' ! (n mod 10)])"

declare digits.simps [simp del]

definition toString :: "int \<Rightarrow> string" where
  "toString i = (if i < 0 then CHR ''-'' # digits (nat (- i)) else digits (nat i))"

definition is_admin :: "env \<Rightarrow> int \<Rightarrow> bool" where
  "is_admin e c = (Some (toString c) = ADMIN_CHAT_ID e)"

text \<open>
  \<^verbatim>\<open>String.prototype.trim\<close> on code units below 256: tab, line feed, vertical tab, form
  feed, carriage return, space and no-break space are stripped from both ends.
\<close>

definition js_space :: "char \<Rightarrow> bool" where
  "js_space ch = (of_char ch \<in> {9, 10, 11, 12, 13, 32, 160 :: nat})"

definition trim :: "string \<Rightarrow> string" where
  "trim s = rev (dropWhile js_space (rev (dropWhile js_space s)))"

definition command_of :: "string \<Rightarrow> string" where
  "command_of messageText = takeWhile (\<lambda>ch. ch \<noteq> CHR '' '') messageText"

definition args_of :: "string \<Rightarrow> string" where
  "args_of messageText = trim (drop (length (command_of messageText)) messageText)"

definition startsWith_slash :: "string \<Rightarrow> bool" where
  "startsWith_slash s = (case s of [] \<Rightarrow> False | ch # _ \<Rightarrow> ch = CHR ''/'')"

text \<open>The price list sent to a new subscriber, in the \<^verbatim>\<open>/start\<close> branch.\<close>

definition send_current_prices :: "env \<Rightarrow> int \<Rightarrow> world \<Rightarrow> world \<times> js_error option" where
  "send_current_prices e c w =
     (case loadData w of
        None \<Rightarrow> (w, None)
      | Some currentData \<Rightarrow>
          (case formatPrice (buyPrice currentData) of
             Inl err \<Rightarrow> (w, Some err)
           | Inr formattedBuyPrice \<Rightarrow>
               (case formatPrice (sellPrice currentData) of
                  Inl err \<Rightarrow> (w, Some err)
                | Inr formattedSellPrice \<Rightarrow>
                    (case formatDate e (lastUpdate currentData) of
                       Inl err \<Rightarrow> (w, Some err)
                     | Inr d \<Rightarrow>
                         (snd (sendTelegramMessage e (IdNum c)
                                 (PRICE_LIST formattedBuyPrice formattedSellPrice d) w),
                          None)))))"

definition processUpdate :: "env \<Rightarrow> update \<Rightarrow> world \<Rightarrow> world \<times> js_error option" where
  "processUpdate e upd w =
     (case upd of
        None \<Rightarrow> (w, None)
      | Some msg \<Rightarrow>
          (let c = chat_id msg;
               messageText = (case text_field msg of None \<Rightarrow> [] | Some t \<Rightarrow> t);
               uname = (case from_username msg of
                          None \<Rightarrow> ''unknown''
                        | Some n \<Rightarrow> if n = [] then ''unknown'' else n)
           in if startsWith_slash messageText then
                (let command = command_of messageText;
                     args = args_of messageText
                 in if command = ''/start'' then
                      (let (added, w1) = addUser e c uname w;
                           (_, w2) = sendTelegramMessage e (IdNum c)
                                       (if added then WELCOME else ALREADY_SUBSCRIBED) w1
                       in if added then send_current_prices e c w2 else (w2, None))
                    else if command = ''/stop'' then
                      (let (removed, w1) = removeUser e c w;
                           (_, w2) = sendTelegramMessage e (IdNum c)
                                       (if removed then UNSUBSCRIBED else NOT_SUBSCRIBED) w1
                       in (w2, None))
                    else if command = ''/help'' then
                      (snd (sendTelegramMessage e (IdNum c)
                              (if is_admin e c then HELP_AND_ADMIN_HELP else HELP) w),
                       None)
                    else if command = ''/broadcast'' then
                      (if \<not> is_admin e c then
                         (snd (sendTelegramMessage e (IdNum c) UNAUTHORIZED w), None)
                       else if args \<noteq> [] then
                         (let (sentCount, w1) = broadcastMessage e (Text args) w
                          in (snd (sendTelegramMessage e (IdNum c) (BROADCAST_SENT sentCount) w1),
                              None))
                       else
                         (snd (sendTelegramMessage e (IdNum c) PROVIDE_MESSAGE w), None))
                    else
                      (snd (sendTelegramMessage e (IdNum c) UNKNOWN_COMMAND w), None))
              else if \<not> is_admin e c then
                (snd (sendTelegramMessage e (IdNum c) USE_HELP w), None)
              else (w, None)))"

subsection \<open>Observing a run\<close>

text \<open>
  The send attempts an operation appended to the log, their recipients and texts, and
  the attempts that succeeded and that failed.
\<close>

definition sent_since :: "world \<Rightarrow> world \<Rightarrow> (chat_ref \<times> message \<times> bool) list" where
  "sent_since w w' = drop (length (outbox w)) (outbox w')"

definition addressed :: "(chat_ref \<times> message \<times> bool) list \<Rightarrow> (chat_ref \<times> message) list" where
  "addressed xs = map (\<lambda>(c, m, ok). (c, m)) xs"

definition delivered :: "(chat_ref \<times> message \<times> bool) list \<Rightarrow> (chat_ref \<times> message \<times> bool) list" where
  "delivered xs = filter (\<lambda>(c, m, ok). ok) xs"

definition failed :: "(chat_ref \<times> message \<times> bool) list \<Rightarrow> (chat_ref \<times> message \<times> bool) list" where
  "failed xs = filter (\<lambda>(c, m, ok). \<not> ok) xs"

text \<open>The log entries of one pass over the subscribers, the first post being the \<open>k\<close>-th.\<close>

fun deliveries :: "env \<Rightarrow> message \<Rightarrow> user list \<Rightarrow> nat \<Rightarrow> (chat_ref \<times> message \<times> bool) list" where
  "deliveries e m [] k = []"
| "deliveries e m (u # us) k = (IdNum (chatId u), m, net e k) # deliveries e m us (Suc k)"


subsection \<open>Sequences of store operations\<close>

text \<open>
  A call of \<^verbatim>\<open>addUser\<close> (with the display name) or of \<^verbatim>\<open>removeUser\<close> on one identity,
  each in the environment of its own moment, and a sequence of such calls.
\<close>

datatype store_op = Add string | Remove

fun apply_op :: "int \<Rightarrow> env \<times> store_op \<Rightarrow> world \<Rightarrow> world" where
  "apply_op c (e, Add n) w = snd (addUser e c n w)"
| "apply_op c (e, Remove) w = snd (removeUser e c w)"

fun run_ops :: "int \<Rightarrow> (env \<times> store_op) list \<Rightarrow> world \<Rightarrow> world" where
  "run_ops c [] w = w"
| "run_ops c (x # xs) w = run_ops c xs (apply_op c x w)"

subsection \<open>Concrete inputs\<close>

definition ann :: user where
  "ann = \<lparr>chatId = 11, username = ''ann'', subscribedAt = ''2024-05-01T08:00:00.000Z''\<rparr>"

definition bob :: user where
  "bob = \<lparr>chatId = 22, username = ''bob'', subscribedAt = ''2024-05-02T08:00:00.000Z''\<rparr>"

definition cat :: user where
  "cat = \<lparr>chatId = -33, username = ''cat'', subscribedAt = ''2024-05-03T08:00:00.000Z''\<rparr>"

text \<open>An environment where the second post fails and the price source times out.\<close>

definition env0 :: env where
  "env0 = \<lparr>ADMIN_CHAT_ID = Some ''99'', net = (\<lambda>k. k \<noteq> 1), users_writable = True,
            data_writable = True, fetch = FetchFailed ''timeout'',
            iso_date = (\<lambda>s. if length s < 10 then None else Some (take 10 s)),
            now = ''2024-06-01T00:00:00.000Z''\<rparr>"

definition world0 :: world where
  "world0 = \<lparr>users_file = Stored [ann, bob, cat], data_file = Missing, outbox = []\<rparr>"

text \<open>A subscriber store that cannot be written, a response with one entry, unreadable files.\<close>

definition env_ro :: env where
  "env_ro = env0\<lparr>users_writable := False\<rparr>"

definition entry0 :: price_entry where
  "entry0 = PriceEntry (Parses 100000) (Parses 95000) (Some ''2024-05-01 08:30:00'')"

definition env1 :: env where
  "env1 = env0\<lparr>fetch := Fetched (BodyPriceList [entry0])\<rparr>"

definition world_bad :: world where
  "world_bad = \<lparr>users_file = Unparsable, data_file = Unreadable, outbox = []\<rparr>"

definition ops0 :: "(env \<times> store_op) list" where
  "ops0 = [(env0, Add ''bob2''), (env0, Remove), (env_ro, Add ''rob''), (env0, Add ''rob''),
           (env0, Add ''bobby'')]"

text \<open>A stored snapshot, a response with an empty price list, one with non-numeric prices.\<close>

definition snap0 :: snapshot where
  "snap0 = \<lparr>buyPrice = Num 100000, sellPrice = Num 95000, lastUpdate = Some ''2024-04-30 08:30:00''\<rparr>"

definition world1 :: world where
  "world1 = \<lparr>users_file = Stored [ann, bob, cat], data_file = Stored snap0, outbox = []\<rparr>"

definition env_empty_list :: env where
  "env_empty_list = env0\<lparr>fetch := Fetched (BodyPriceList [])\<rparr>"

definition env_non_numeric :: env where
  "env_non_numeric =
     env0\<lparr>fetch := Fetched (BodyPriceList [PriceEntry NoParse NoParse (Some ''2024-05-01 08:30:00'')])\<rparr>"



text \<open>Three \<^verbatim>\<open>/broadcast\<close> messages: from a stranger, from the admin without and with text.\<close>

definition msg_eve :: tg_message where
  "msg_eve = \<lparr>chat_id = 5, text_field = Some ''/broadcast hello'', from_username = Some ''eve''\<rparr>"

definition msg_boss_empty :: tg_message where
  "msg_boss_empty = \<lparr>chat_id = 99, text_field = Some ''/broadcast  '', from_username = Some ''boss''\<rparr>"

definition msg_boss :: tg_message where
  "msg_boss = \<lparr>chat_id = 99, text_field = Some ''/broadcast  hello all '', from_username = None\<rparr>"

section \<open>Properties\<close>

subsection \<open>Dispatcher lemmas\<close>

lemma sent_since_append: "sent_since w (w\<lparr>outbox := outbox w @ xs\<rparr>) = xs"
  by (simp add: sent_since_def)

lemma send_eq:
  "sendTelegramMessage e c m w =
     (net e (length (outbox w)), w\<lparr>outbox := outbox w @ [(c, m, net e (length (outbox w)))]\<rparr>)"
  by (simp add: sendTelegramMessage_def axios_post_def)

lemma loadUsers_Stored: "users_file w = Stored us \<Longrightarrow> loadUsers e w = (us, w)"
  by (simp add: loadUsers_def existsSync_def)

lemma send_loop_eq:
  "send_loop e m us k w =
     (k + length (delivered (deliveries e m us (length (outbox w)))),
      w\<lparr>outbox := outbox w @ deliveries e m us (length (outbox w))\<rparr>)"
proof (induction us arbitrary: k w)
  case Nil
  show ?case by (simp add: delivered_def)
next
  case (Cons u us)
  show ?case
    by (simp add: send_eq Cons.IH delivered_def)
qed

lemma addressed_deliveries:
  "addressed (deliveries e m us k) = map (\<lambda>u. (IdNum (chatId u), m)) us"
  by (induction us arbitrary: k) (simp_all add: addressed_def)

lemma length_deliveries: "length (deliveries e m us k) = length us"
  by (induction us arbitrary: k) simp_all

lemma delivered_failed: "length (delivered xs) + length (failed xs) = length xs"
  by (induction xs) (auto simp: delivered_def failed_def)

lemma broadcast_Stored:
  "users_file w = Stored us \<Longrightarrow>
   broadcastMessage e m w =
     (length (delivered (deliveries e m us (length (outbox w)))),
      w\<lparr>outbox := outbox w @ deliveries e m us (length (outbox w))\<rparr>)"
  by (simp add: broadcastMessage_def loadUsers_Stored send_loop_eq)

subsection \<open>Broadcast\<close>

text \<open>
  C6. A broadcast over a stored list of \<open>N\<close> subscribers posts once to each subscriber, in
  the order of the list and with the given text, and nothing else; of these posts \<open>M\<close>
  fail, and it returns \<open>N - M\<close>, the number of posts that succeeded. It returns a count
  for every outcome of the posts: \<^verbatim>\<open>sendTelegramMessage\<close> catches what \<^verbatim>\<open>axios.post\<close>
  raises, so \<open>broadcastMessage\<close> has no error result. Neither file is touched.
\<close>

theorem broadcast_counts:
  assumes "users_file w = Stored us"
  shows "outbox (snd (broadcastMessage e m w))
           = outbox w @ sent_since w (snd (broadcastMessage e m w))
       \<and> addressed (sent_since w (snd (broadcastMessage e m w)))
           = map (\<lambda>u. (IdNum (chatId u), m)) us
       \<and> fst (broadcastMessage e m w)
           = length us - length (failed (sent_since w (snd (broadcastMessage e m w))))
       \<and> fst (broadcastMessage e m w)
           = length (delivered (sent_since w (snd (broadcastMessage e m w))))
       \<and> users_file (snd (broadcastMessage e m w)) = users_file w
       \<and> data_file (snd (broadcastMessage e m w)) = data_file w"
proof -
  let ?d = "deliveries e m us (length (outbox w))"
  have b: "broadcastMessage e m w = (length (delivered ?d), w\<lparr>outbox := outbox w @ ?d\<rparr>)"
    using assms by (rule broadcast_Stored)
  have "length (delivered ?d) + length (failed ?d) = length us"
    by (simp add: delivered_failed length_deliveries)
  then have "length (delivered ?d) = length us - length (failed ?d)" by arith
  then show ?thesis
    by (simp add: b sent_since_append addressed_deliveries)
qed

theorem broadcast_counts_witness:
  "users_file world0 = Stored [ann, bob, cat]
   \<and> fst (broadcastMessage env0 (Text ''x'') world0) = 2
   \<and> length (failed (sent_since world0 (snd (broadcastMessage env0 (Text ''x'') world0)))) = 1
   \<and> addressed (sent_since world0 (snd (broadcastMessage env0 (Text ''x'') world0)))
       = [(IdNum 11, Text ''x''), (IdNum 22, Text ''x''), (IdNum (-33), Text ''x'')]"
proof -
  have h: "users_file world0 = Stored [ann, bob, cat]" by (simp add: world0_def)
  have f: "failed (sent_since world0 (snd (broadcastMessage env0 (Text ''x'') world0)))
             = [(IdNum 22, Text ''x'', False)]"
    unfolding broadcast_Stored [OF h, of env0 "Text ''x''"] snd_conv sent_since_append
    by (simp add: failed_def env0_def world0_def ann_def bob_def cat_def)
  show ?thesis
    using h f broadcast_counts [OF h, of env0 "Text ''x''"]
    by (simp add: ann_def bob_def cat_def)
qed

subsection \<open>Fetch failure\<close>

text \<open>
  C4. When the fetch from the price source fails, the detection cycle makes exactly one
  send attempt, addressed to the admin chat and carrying the fetch error, and changes
  nothing else: both files are as they were and no subscriber is posted to.
\<close>

theorem fetch_failure_admin_only:
  assumes "fetch e = FetchFailed msg"
  shows "checkPriceChanges e w =
           w\<lparr>outbox := outbox w @ [(admin_ref e, DATA_FETCH_ERROR msg, net e (length (outbox w)))]\<rparr>
       \<and> data_file (checkPriceChanges e w) = data_file w
       \<and> users_file (checkPriceChanges e w) = users_file w
       \<and> length (sent_since w (checkPriceChanges e w)) = 1
       \<and> addressed (sent_since w (checkPriceChanges e w)) = [(admin_ref e, DATA_FETCH_ERROR msg)]"
proof -
  have "checkPriceChanges e w =
           w\<lparr>outbox := outbox w @ [(admin_ref e, DATA_FETCH_ERROR msg, net e (length (outbox w)))]\<rparr>"
    using assms by (simp add: checkPriceChanges_def fetchData_def send_eq)
  then show ?thesis
    by (simp add: sent_since_append addressed_def)
qed

theorem fetch_failure_admin_only_witness:
  "fetch env0 = FetchFailed ''timeout''
   \<and> checkPriceChanges env0 world0 =
        world0\<lparr>outbox := [(IdStr ''99'', DATA_FETCH_ERROR ''timeout'', True)]\<rparr>
   \<and> data_file (checkPriceChanges env0 world0) = Missing"
proof -
  have h: "fetch env0 = FetchFailed ''timeout''" by (simp add: env0_def)
  show ?thesis
    using h fetch_failure_admin_only [OF h, of world0]
    by (simp add: admin_ref_def env0_def world0_def)
qed

subsection \<open>Subscriber store\<close>

lemma saveUsers_eq:
  "saveUsers e us w = (if users_writable e then w\<lparr>users_file := Stored us\<rparr> else w)"
  by (simp add: saveUsers_def writeFileSync_def)

lemma filter_length_less:
  "(length (filter P xs) < length xs) = (\<exists>x\<in>set xs. \<not> P x)"
  by (induction xs) (auto simp: less_Suc_eq_le)

lemma removeUser_Stored:
  "users_file w = Stored us \<Longrightarrow>
   removeUser e c w =
     (if c \<in> chatId ` set us then (True, saveUsers e (filter (\<lambda>u. chatId u \<noteq> c) us) w)
      else (False, w))"
  by (auto simp: removeUser_def loadUsers_Stored Let_def filter_length_less)

lemma distinct_filter_split:
  assumes "distinct (map f xs)" and "x \<in> set xs"
  shows "\<exists>ys zs. xs = ys @ x # zs \<and> filter (\<lambda>u. f u \<noteq> f x) xs = ys @ zs"
proof -
  from assms(2) obtain ys zs where xs: "xs = ys @ x # zs" by (auto simp: in_set_conv_decomp)
  with assms(1) have "f x \<notin> f ` set ys" and "f x \<notin> f ` set zs"
    by auto
  then have "\<forall>u\<in>set ys. f u \<noteq> f x" and "\<forall>u\<in>set zs. f u \<noteq> f x"
    by (metis imageI)+
  then have "filter (\<lambda>u. f u \<noteq> f x) xs = ys @ zs"
    by (simp add: xs)
  with xs show ?thesis by blast
qed

text \<open>
  C9. On a stored collection, \<open>removeUser\<close> of an identity that is not present returns
  false and changes nothing. Of an identity that is present it returns true and, the
  write succeeding, replaces the stored collection by the one without the records of
  that identity, all others kept in order (when the write fails the file stays as it
  was); in a duplicate-free collection that is exactly one record taken out.
\<close>

theorem removeUser_spec:
  assumes "users_file w = Stored us"
  shows "(c \<notin> chatId ` set us \<longrightarrow> removeUser e c w = (False, w))
       \<and> (c \<in> chatId ` set us \<longrightarrow>
            fst (removeUser e c w) = True
          \<and> (users_writable e \<longrightarrow>
               snd (removeUser e c w) = w\<lparr>users_file := Stored (filter (\<lambda>u. chatId u \<noteq> c) us)\<rparr>)
          \<and> (\<not> users_writable e \<longrightarrow> snd (removeUser e c w) = w)
          \<and> (distinct (map chatId us) \<longrightarrow>
               (\<exists>ys u zs. us = ys @ u # zs \<and> chatId u = c
                  \<and> filter (\<lambda>u. chatId u \<noteq> c) us = ys @ zs)))"
proof (intro conjI impI)
  assume "c \<notin> chatId ` set us"
  then show "removeUser e c w = (False, w)"
    using assms by (simp add: removeUser_Stored)
next
  assume "c \<in> chatId ` set us"
  then show "fst (removeUser e c w) = True"
    using assms by (simp add: removeUser_Stored)
next
  assume "c \<in> chatId ` set us" and "users_writable e"
  then show "snd (removeUser e c w) = w\<lparr>users_file := Stored (filter (\<lambda>u. chatId u \<noteq> c) us)\<rparr>"
    using assms by (simp add: removeUser_Stored saveUsers_eq)
next
  assume "c \<in> chatId ` set us" and "\<not> users_writable e"
  then show "snd (removeUser e c w) = w"
    using assms by (simp add: removeUser_Stored saveUsers_eq)
next
  assume c: "c \<in> chatId ` set us" and d: "distinct (map chatId us)"
  from c obtain u where u: "u \<in> set us" "chatId u = c" by auto
  from distinct_filter_split [OF d u(1)] u(2)
  show "\<exists>ys u zs. us = ys @ u # zs \<and> chatId u = c \<and> filter (\<lambda>u. chatId u \<noteq> c) us = ys @ zs"
    by blast
qed

theorem removeUser_spec_witness:
  "users_file world0 = Stored [ann, bob, cat]
   \<and> removeUser env0 44 world0 = (False, world0)
   \<and> removeUser env0 22 world0 = (True, world0\<lparr>users_file := Stored [ann, cat]\<rparr>)"
proof -
  have h: "users_file world0 = Stored [ann, bob, cat]" by (simp add: world0_def)
  have w: "users_writable env0" by (simp add: env0_def)
  have f: "filter (\<lambda>u. chatId u \<noteq> 22) [ann, bob, cat] = [ann, cat]"
    by (simp add: ann_def bob_def cat_def)
  have p: "(22::int) \<in> chatId ` set [ann, bob, cat]" "(44::int) \<notin> chatId ` set [ann, bob, cat]"
    by (simp_all add: ann_def bob_def cat_def)
  from removeUser_spec [OF h, of 44 env0] p(2)
  have a: "removeUser env0 44 world0 = (False, world0)" by blast
  from removeUser_spec [OF h, of 22 env0] p(1) w
  have "fst (removeUser env0 22 world0) = True"
    and "snd (removeUser env0 22 world0)
           = world0\<lparr>users_file := Stored (filter (\<lambda>u. chatId u \<noteq> 22) [ann, bob, cat])\<rparr>"
    by blast+
  then have b: "removeUser env0 22 world0 = (True, world0\<lparr>users_file := Stored [ann, cat]\<rparr>)"
    unfolding f by (simp add: prod_eq_iff)
  from h a b show ?thesis by blast
qed

lemma addUser_Stored:
  assumes "users_file w = Stored us"
  shows "addUser e c n w =
     (if c \<in> chatId ` set us then (False, w)
      else (True, saveUsers e (us @ [\<lparr>chatId = c, username = n, subscribedAt = now e\<rparr>]) w))"
proof (cases "find (\<lambda>u. chatId u = c) us")
  case None
  then have "c \<notin> chatId ` set us" by (auto simp: find_None_iff)
  with None assms show ?thesis
    by (simp add: addUser_def loadUsers_Stored)
next
  case (Some u)
  then have "c \<in> chatId ` set us" by (auto simp: find_Some_iff)
  with Some assms show ?thesis
    by (simp add: addUser_def loadUsers_Stored)
qed

lemma apply_op_distinct:
  assumes "users_file w = Stored us" and "distinct (map chatId us)"
  shows "\<exists>us'. users_file (apply_op c x w) = Stored us' \<and> distinct (map chatId us')"
proof (cases x)
  case (Pair e op)
  show ?thesis
  proof (cases op)
    case (Add n)
    with Pair assms show ?thesis
      by (auto simp: addUser_Stored saveUsers_eq)
  next
    case Remove
    with Pair assms show ?thesis
      by (auto simp: removeUser_Stored saveUsers_eq distinct_map_filter)
  qed
qed

lemma run_ops_distinct:
  "users_file w = Stored us \<Longrightarrow> distinct (map chatId us) \<Longrightarrow>
   \<exists>us'. users_file (run_ops c ops w) = Stored us' \<and> distinct (map chatId us')"
proof (induction ops arbitrary: w us)
  case Nil
  then show ?case by simp
next
  case (Cons x xs)
  from apply_op_distinct [OF Cons.prems, of c x]
  obtain us1 where "users_file (apply_op c x w) = Stored us1" "distinct (map chatId us1)"
    by blast
  from Cons.IH [OF this] show ?case by simp
qed

text \<open>
  C5. From a stored, duplicate-free collection, after any sequence of \<open>addUser\<close> and
  \<open>removeUser\<close> calls on one identity (whatever the clock and whether or not each write
  succeeds), the store holds a collection with no two records of the same identity; and
  in the state reached, \<open>addUser\<close> of that identity, when it is present, returns false
  and changes nothing.
\<close>

theorem store_never_duplicates:
  assumes "users_file w = Stored us" and "distinct (map chatId us)"
  shows "\<exists>us'. users_file (run_ops c ops w) = Stored us' \<and> distinct (map chatId us')
           \<and> (c \<in> chatId ` set us' \<longrightarrow>
                addUser e c n (run_ops c ops w) = (False, run_ops c ops w))"
proof -
  from run_ops_distinct [OF assms, of c ops]
  obtain us' where s: "users_file (run_ops c ops w) = Stored us'" and d: "distinct (map chatId us')"
    by blast
  have "c \<in> chatId ` set us' \<longrightarrow> addUser e c n (run_ops c ops w) = (False, run_ops c ops w)"
    by (simp add: addUser_Stored [OF s])
  with s d show ?thesis by blast
qed

theorem store_never_duplicates_witness:
  "users_file world0 = Stored [ann, bob, cat] \<and> distinct (map chatId [ann, bob, cat])
   \<and> users_file (run_ops 22 ops0 world0)
       = Stored [ann, cat, \<lparr>chatId = 22, username = ''rob'', subscribedAt = now env0\<rparr>]
   \<and> (\<exists>us'. users_file (run_ops 22 ops0 world0) = Stored us' \<and> distinct (map chatId us')
         \<and> (22 \<in> chatId ` set us' \<longrightarrow>
              addUser env0 22 ''bobby'' (run_ops 22 ops0 world0) = (False, run_ops 22 ops0 world0)))"
proof -
  have h: "users_file world0 = Stored [ann, bob, cat]" by (simp add: world0_def)
  have d: "distinct (map chatId [ann, bob, cat])" by (simp add: ann_def bob_def cat_def)
  have r: "users_file (run_ops 22 ops0 world0)
       = Stored [ann, cat, \<lparr>chatId = 22, username = ''rob'', subscribedAt = now env0\<rparr>]"
    by (simp add: ops0_def world0_def addUser_Stored removeUser_Stored saveUsers_eq env_ro_def
        env0_def ann_def bob_def cat_def)
  from h d r store_never_duplicates [OF h d, of 22 ops0 env0 "''bobby''"]
  show ?thesis by blast
qed

text \<open>
  C8, evaluated where the write of the subscriber file fails. \<open>saveUsers\<close> catches the
  error and returns nothing, so \<open>addUser\<close> of a new identity returns true although the
  identity is not subscribed afterwards, the \<^verbatim>\<open>/start\<close> command answers with the welcome
  text, and \<open>removeUser\<close> of a present identity returns true although the identity is
  still subscribed. The file itself is as it was.
\<close>

theorem write_failure_reported_as_success:
  "\<not> users_writable env_ro
   \<and> addUser env_ro 44 ''dan'' world0 = (True, world0)
   \<and> fst (isUserSubscribed env_ro 44 (snd (addUser env_ro 44 ''dan'' world0))) = False
   \<and> removeUser env_ro 22 world0 = (True, world0)
   \<and> fst (isUserSubscribed env_ro 22 (snd (removeUser env_ro 22 world0))) = True
   \<and> addressed (sent_since world0
        (fst (processUpdate env_ro
                (Some \<lparr>chat_id = 44, text_field = Some ''/start'', from_username = Some ''dan''\<rparr>)
                world0)))
       = [(IdNum 44, WELCOME)]"
  by (simp add: env_ro_def env0_def world0_def ann_def bob_def cat_def addUser_def removeUser_def
      isUserSubscribed_def loadUsers_def saveUsers_def writeFileSync_def existsSync_def
      processUpdate_def startsWith_slash_def command_of_def args_of_def send_eq
      send_current_prices_def loadData_def sent_since_def addressed_def)

subsection \<open>Reading the two files\<close>

lemma loadUsers_absent:
  "users_file w \<in> {Missing, Unreadable, Unparsable} \<Longrightarrow>
   fst (loadUsers e w) = [] \<and> outbox (snd (loadUsers e w)) = outbox w
   \<and> data_file (snd (loadUsers e w)) = data_file w"
  by (auto simp: loadUsers_def existsSync_def writeFileSync_def)

lemma loadUsers_data_file:
  "loadUsers e (w\<lparr>data_file := f\<rparr>) = (fst (loadUsers e w), (snd (loadUsers e w))\<lparr>data_file := f\<rparr>)"
  by (simp add: loadUsers_def writeFileSync_def split: sum.splits)

lemma loadUsers_keeps:
  "data_file (snd (loadUsers e w)) = data_file w"
  "outbox (snd (loadUsers e w)) = outbox w"
  by (simp_all add: loadUsers_def writeFileSync_def split: sum.splits)

lemma send_loop_data_file:
  "send_loop e m us k (w\<lparr>data_file := f\<rparr>)
     = (fst (send_loop e m us k w), (snd (send_loop e m us k w))\<lparr>data_file := f\<rparr>)"
  by (simp add: send_loop_eq)

lemma broadcast_data_file:
  "broadcastMessage e m (w\<lparr>data_file := f\<rparr>)
     = (fst (broadcastMessage e m w), (snd (broadcastMessage e m w))\<lparr>data_file := f\<rparr>)"
  by (simp add: broadcastMessage_def loadUsers_data_file send_loop_data_file split_beta)

lemma broadcast_keeps_data: "data_file (snd (broadcastMessage e m w)) = data_file w"
  by (simp add: broadcastMessage_def split_beta send_loop_eq loadUsers_keeps)

lemma saveData_eq:
  "saveData e d w = (if data_writable e then w\<lparr>data_file := Stored (json_snapshot d)\<rparr> else w)"
  by (simp add: saveData_def writeFileSync_def)

lemma loadData_absent:
  "data_file w \<in> {Missing, Unreadable, Unparsable} \<Longrightarrow> loadData w = None"
  by (auto simp: loadData_def existsSync_def)


lemma formatPrice_parseFloat: "formatPrice (parseFloat r) = Inr (parseFloat r)"
  by (cases r) simp_all

text \<open>The cycle on a world without a readable snapshot, the response having a first entry.\<close>

lemma check_body_NoSnapshot:
  assumes "loadData w = None"
  shows "check_body e (BodyPriceList (x # xs)) w =
     (let newData = \<lparr>buyPrice = parseFloat (hargaJual x), sellPrice = parseFloat (hargaBeli x),
                      lastUpdate = entryLastUpdate x\<rparr>;
          w1 = saveData e newData w
      in case formatDate e (entryLastUpdate x) of
           Inl err \<Rightarrow> (w1, Some err)
         | Inr d \<Rightarrow>
             (snd (broadcastMessage e
                     (PRICE_LIST (parseFloat (hargaJual x)) (parseFloat (hargaBeli x)) d) w1),
              None))"
  using assms by (simp add: check_body_def formatPrice_parseFloat Let_def)

lemma check_body_absent:
  assumes "data_file w \<in> {Missing, Unreadable, Unparsable}"
  shows "fst (check_body e b w) =
     (let wM = fst (check_body e b (w\<lparr>data_file := Missing\<rparr>))
      in if data_file wM = Missing then wM\<lparr>data_file := data_file w\<rparr> else wM)"
proof (cases "first_entry b")
  case (Inl err)
  then show ?thesis by (simp add: check_body_def)
next
  case (Inr x)
  then obtain xs where b: "b = BodyPriceList (x # xs)"
    by (cases b rule: first_entry.cases) auto
  have n: "loadData w = None" "loadData (w\<lparr>data_file := Missing\<rparr>) = None"
    using assms by (simp_all add: loadData_absent)
  show ?thesis
    unfolding b check_body_NoSnapshot [OF n(1)] check_body_NoSnapshot [OF n(2)]
    by (auto simp: Let_def saveData_eq broadcast_data_file broadcast_keeps_data
        split: sum.splits)
qed

text \<open>
  C10. Both reads return a value for every state of their file; no error leaves them.
  A subscriber file that is missing, unreadable or unparsable is read as the empty
  collection: \<open>isUserSubscribed\<close> answers false, a broadcast posts to nobody and returns
  \<open>0\<close>. A snapshot file that is missing, unreadable or unparsable is read as absent, and
  the detection cycle then does what it does when the file is missing: the same posts,
  the same subscriber file, and the same snapshot written (where the missing-file cycle
  writes none, the file stays as it was).
\<close>

theorem absent_files_read_as_empty:
  "(users_file w \<in> {Missing, Unreadable, Unparsable} \<longrightarrow>
      fst (loadUsers e w) = []
    \<and> fst (isUserSubscribed e c w) = False
    \<and> fst (broadcastMessage e m w) = 0
    \<and> sent_since w (snd (broadcastMessage e m w)) = [])
   \<and> (data_file w \<in> {Missing, Unreadable, Unparsable} \<longrightarrow>
      loadData w = None
    \<and> checkPriceChanges e w =
        (let wM = checkPriceChanges e (w\<lparr>data_file := Missing\<rparr>)
         in if data_file wM = Missing then wM\<lparr>data_file := data_file w\<rparr> else wM))"
proof (intro conjI impI)
  assume u: "users_file w \<in> {Missing, Unreadable, Unparsable}"
  show "fst (loadUsers e w) = []"
    using u by (simp add: loadUsers_absent)
  show "fst (isUserSubscribed e c w) = False"
    using loadUsers_absent [OF u, of e] by (simp add: isUserSubscribed_def split_beta)
  show "fst (broadcastMessage e m w) = 0"
    using loadUsers_absent [OF u, of e] by (simp add: broadcastMessage_def split_beta)
  show "sent_since w (snd (broadcastMessage e m w)) = []"
    using loadUsers_absent [OF u, of e]
    by (simp add: broadcastMessage_def split_beta sent_since_def)
next
  assume d: "data_file w \<in> {Missing, Unreadable, Unparsable}"
  show "loadData w = None" using d by (rule loadData_absent)
  show "checkPriceChanges e w =
        (let wM = checkPriceChanges e (w\<lparr>data_file := Missing\<rparr>)
         in if data_file wM = Missing then wM\<lparr>data_file := data_file w\<rparr> else wM)"
  proof (cases "fetch e")
    case (FetchFailed msg)
    then show ?thesis
      by (simp add: checkPriceChanges_def fetchData_def send_eq)
  next
    case (Fetched b)
    show ?thesis
    proof (cases "b = BodyFalsy")
      case True
      with Fetched show ?thesis by (simp add: checkPriceChanges_def fetchData_def)
    next
      case False
      then have "checkPriceChanges e w' = fst (check_body e b w')" for w'
        using Fetched by (cases b) (simp_all add: checkPriceChanges_def fetchData_def)
      then show ?thesis
        using check_body_absent [OF d, of e b] by simp
    qed
  qed
qed

theorem absent_files_read_as_empty_witness:
  "users_file world_bad \<in> {Missing, Unreadable, Unparsable}
   \<and> data_file world_bad \<in> {Missing, Unreadable, Unparsable}
   \<and> fst (loadUsers env1 world_bad) = []
   \<and> fst (isUserSubscribed env1 11 world_bad) = False
   \<and> fst (broadcastMessage env1 (Text ''x'') world_bad) = 0
   \<and> loadData world_bad = None
   \<and> checkPriceChanges env1 world_bad =
        world_bad\<lparr>data_file := Stored \<lparr>buyPrice = Num 100000, sellPrice = Num 95000,
                                        lastUpdate = Some ''2024-05-01 08:30:00''\<rparr>\<rparr>"
proof -
  have u: "users_file world_bad \<in> {Missing, Unreadable, Unparsable}"
    and d: "data_file world_bad \<in> {Missing, Unreadable, Unparsable}"
    by (simp_all add: world_bad_def)
  have m: "checkPriceChanges env1 (world_bad\<lparr>data_file := Missing\<rparr>) =
        world_bad\<lparr>data_file := Stored \<lparr>buyPrice = Num 100000, sellPrice = Num 95000,
                                        lastUpdate = Some ''2024-05-01 08:30:00''\<rparr>\<rparr>"
    by (simp add: checkPriceChanges_def fetchData_def check_body_def loadData_def existsSync_def
        saveData_eq json_snapshot_def formatDate_def broadcastMessage_def loadUsers_def
        env1_def env0_def entry0_def world_bad_def)
  from absent_files_read_as_empty [of world_bad env1 11 "Text ''x''"] u d
  have "fst (loadUsers env1 world_bad) = []"
    and "fst (isUserSubscribed env1 11 world_bad) = False"
    and "fst (broadcastMessage env1 (Text ''x'') world_bad) = 0"
    and "loadData world_bad = None"
    and c: "checkPriceChanges env1 world_bad =
        (let wM = checkPriceChanges env1 (world_bad\<lparr>data_file := Missing\<rparr>)
         in if data_file wM = Missing then wM\<lparr>data_file := data_file world_bad\<rparr> else wM)"
    by blast+
  moreover have "checkPriceChanges env1 world_bad =
        world_bad\<lparr>data_file := Stored \<lparr>buyPrice = Num 100000, sellPrice = Num 95000,
                                        lastUpdate = Some ''2024-05-01 08:30:00''\<rparr>\<rparr>"
    unfolding c m by simp
  ultimately show ?thesis using u d by blast
qed

subsection \<open>Detection cycle\<close>


lemma addressed_append: "addressed (xs @ ys) = addressed xs @ addressed ys"
  by (simp add: addressed_def)


lemma checkPriceChanges_entry:
  "fetch e = Fetched (BodyPriceList (x # xs)) \<Longrightarrow>
   checkPriceChanges e w = fst (check_body e (BodyPriceList (x # xs)) w)"
  by (simp add: checkPriceChanges_def fetchData_def)



text \<open>Beyond \<open>2^53\<close> the margin is rounded: near \<open>2^60\<close> the doubles are 128 apart.\<close>

lemma to_double_rounds:
  "to_double (1152921504606846976 - 1000) = 1152921504606846976 - 1024"
  "to_double 9007199254740993 = 9007199254740992"
  "to_double 9007199254740995 = 9007199254740996"
  by (simp_all add: to_double_def round_nat_def ulp.simps)




text \<open>
  C2. A cycle that fetches a response whose first entry has numeric prices and a valid
  date, no previous snapshot being readable: the candidate is saved as fetched, without
  the margin (the snapshot file holds it when the write succeeds), and the posts of the
  cycle are one price-list announcement to each subscriber, built from the unadjusted
  prices; no buy-dropped or sell-increased text is sent.
\<close>

theorem first_cycle:
  assumes "fetch e = Fetched (BodyPriceList (x # xs))"
    and "hargaJual x = Parses b" and "hargaBeli x = Parses s"
    and "entryLastUpdate x = Some t" and "iso_date e t = Some d"
    and "loadData w = None"
    and "users_file w = Stored us"
  shows "outbox (checkPriceChanges e w) = outbox w @ sent_since w (checkPriceChanges e w)
       \<and> addressed (sent_since w (checkPriceChanges e w))
           = map (\<lambda>u. (IdNum (chatId u), PRICE_LIST (Num b) (Num s) d)) us
       \<and> data_file (checkPriceChanges e w)
           = (if data_writable e
              then Stored \<lparr>buyPrice = Num b, sellPrice = Num s, lastUpdate = Some t\<rparr>
              else data_file w)
       \<and> users_file (checkPriceChanges e w) = users_file w"
proof -
  let ?cand = "\<lparr>buyPrice = Num b, sellPrice = Num s, lastUpdate = Some t\<rparr>"
  let ?w1 = "saveData e ?cand w"
  have u: "users_file ?w1 = Stored us" and o: "outbox ?w1 = outbox w"
    using assms(7) by (simp_all add: saveData_eq)
  have c: "checkPriceChanges e w = snd (broadcastMessage e (PRICE_LIST (Num b) (Num s) d) ?w1)"
    unfolding checkPriceChanges_entry [OF assms(1)] check_body_NoSnapshot [OF assms(6)]
    using assms(2-5) by (simp add: formatDate_def)
  have j: "json_snapshot ?cand = ?cand" by (simp add: json_snapshot_def)
  let ?d = "deliveries e (PRICE_LIST (Num b) (Num s) d) us (length (outbox w))"
  have w': "checkPriceChanges e w =
      (if data_writable e then w\<lparr>outbox := outbox w @ ?d, data_file := Stored ?cand\<rparr>
       else w\<lparr>outbox := outbox w @ ?d\<rparr>)"
    unfolding c broadcast_Stored [OF u] o by (simp add: saveData_eq j)
  have s: "sent_since w (checkPriceChanges e w) = ?d"
    unfolding w' by (simp add: sent_since_def)
  show ?thesis
    unfolding s by (simp add: w' addressed_deliveries)
qed

theorem first_cycle_witness:
  "fetch env1 = Fetched (BodyPriceList (entry0 # []))
   \<and> hargaJual entry0 = Parses 100000 \<and> hargaBeli entry0 = Parses 95000
   \<and> entryLastUpdate entry0 = Some ''2024-05-01 08:30:00''
   \<and> iso_date env1 ''2024-05-01 08:30:00'' = Some ''2024-05-01''
   \<and> loadData world0 = None
   \<and> users_file world0 = Stored [ann, bob, cat]
   \<and> addressed (sent_since world0 (checkPriceChanges env1 world0))
       = [(IdNum 11, PRICE_LIST (Num 100000) (Num 95000) ''2024-05-01''),
          (IdNum 22, PRICE_LIST (Num 100000) (Num 95000) ''2024-05-01''),
          (IdNum (-33), PRICE_LIST (Num 100000) (Num 95000) ''2024-05-01'')]
   \<and> data_file (checkPriceChanges env1 world0)
       = Stored \<lparr>buyPrice = Num 100000, sellPrice = Num 95000,
                 lastUpdate = Some ''2024-05-01 08:30:00''\<rparr>"
proof -
  have h1: "fetch env1 = Fetched (BodyPriceList (entry0 # []))" by (simp add: env1_def)
  have h2: "hargaJual entry0 = Parses 100000" and h3: "hargaBeli entry0 = Parses 95000"
    and h4: "entryLastUpdate entry0 = Some ''2024-05-01 08:30:00''"
    by (simp_all add: entry0_def)
  have h5: "iso_date env1 ''2024-05-01 08:30:00'' = Some ''2024-05-01''"
    by (simp add: env1_def env0_def)
  have h6: "loadData world0 = None" by (simp add: loadData_def existsSync_def world0_def)
  have h7: "users_file world0 = Stored [ann, bob, cat]" by (simp add: world0_def)
  have dw: "data_writable env1" by (simp add: env1_def env0_def)
  from first_cycle [OF h1 h2 h3 h4 h5 h6 h7] dw
  have "addressed (sent_since world0 (checkPriceChanges env1 world0))
       = [(IdNum 11, PRICE_LIST (Num 100000) (Num 95000) ''2024-05-01''),
          (IdNum 22, PRICE_LIST (Num 100000) (Num 95000) ''2024-05-01''),
          (IdNum (-33), PRICE_LIST (Num 100000) (Num 95000) ''2024-05-01'')]"
    and "data_file (checkPriceChanges env1 world0)
       = Stored \<lparr>buyPrice = Num 100000, sellPrice = Num 95000,
                 lastUpdate = Some ''2024-05-01 08:30:00''\<rparr>"
    by (simp_all add: ann_def bob_def cat_def)
  with h1 h2 h3 h4 h5 h6 h7 show ?thesis by blast
qed

text \<open>
  C3 as stated fails. With an empty price list the cycle posts nothing at all, so the
  admin chat is not told; with non-numeric price fields and no previous snapshot the
  cycle saves a snapshot (its prices \<^verbatim>\<open>null\<close>) and posts a price list to every
  subscriber.
\<close>

theorem malformed_payload_counterexample:
  "fetch env_empty_list = Fetched (BodyPriceList [])
   \<and> sent_since world1 (checkPriceChanges env_empty_list world1) = []
   \<and> data_file world0 = Missing
   \<and> data_file (checkPriceChanges env_non_numeric world0)
       = Stored \<lparr>buyPrice = Null, sellPrice = Null, lastUpdate = Some ''2024-05-01 08:30:00''\<rparr>
   \<and> addressed (sent_since world0 (checkPriceChanges env_non_numeric world0))
       = [(IdNum 11, PRICE_LIST NaN NaN ''2024-05-01''),
          (IdNum 22, PRICE_LIST NaN NaN ''2024-05-01''),
          (IdNum (-33), PRICE_LIST NaN NaN ''2024-05-01'')]"
  by (simp add: env_empty_list_def env_non_numeric_def env0_def world0_def world1_def
      checkPriceChanges_def fetchData_def check_body_def loadData_def existsSync_def
      saveData_eq json_snapshot_def formatDate_def broadcastMessage_def loadUsers_def
      send_eq sent_since_def addressed_def ann_def bob_def cat_def)

text \<open>
  C3, amended. When the fetched body has no first price-list entry to read (the body is
  falsy, has no data object, has no price list, or the list is empty), the cycle leaves
  the world as it was: nothing is posted, neither to the admin chat nor to a subscriber,
  and neither file is written. The error is only logged.
\<close>

theorem malformed_payload_only_logged:
  assumes "fetch e = Fetched b" and "first_entry b = Inl err"
  shows "checkPriceChanges e w = w"
  using assms
  by (cases b) (simp_all add: checkPriceChanges_def fetchData_def check_body_def)

theorem malformed_payload_only_logged_witness:
  "fetch env_empty_list = Fetched (BodyPriceList [])
   \<and> first_entry (BodyPriceList []) = Inl TypeError
   \<and> checkPriceChanges env_empty_list world1 = world1"
proof -
  have h1: "fetch env_empty_list = Fetched (BodyPriceList [])"
    by (simp add: env_empty_list_def)
  have h2: "first_entry (BodyPriceList []) = Inl TypeError" by simp
  from h1 h2 malformed_payload_only_logged [OF h1 h2, of world1] show ?thesis by blast
qed

subsection \<open>The broadcast command\<close>

lemma command_starts_with_slash:
  "command_of t = ''/broadcast'' \<Longrightarrow> startsWith_slash t"
  by (cases t) (auto simp: command_of_def startsWith_slash_def split: if_splits)

lemma processUpdate_broadcast:
  assumes "text_field msg = Some t" and "command_of t = ''/broadcast''"
  shows "processUpdate e (Some msg) w =
     (if \<not> is_admin e (chat_id msg) then
        (snd (sendTelegramMessage e (IdNum (chat_id msg)) UNAUTHORIZED w), None)
      else if args_of t \<noteq> [] then
        (let (sentCount, w1) = broadcastMessage e (Text (args_of t)) w
         in (snd (sendTelegramMessage e (IdNum (chat_id msg)) (BROADCAST_SENT sentCount) w1),
             None))
      else (snd (sendTelegramMessage e (IdNum (chat_id msg)) PROVIDE_MESSAGE w), None))"
  using assms command_starts_with_slash [OF assms(2)]
  by (simp add: processUpdate_def Let_def)

text \<open>
  C7. For a message whose first space-delimited token is \<^verbatim>\<open>/broadcast\<close>, over a stored
  subscriber collection: a sender who is not the admin gets the one reply
  \<open>UNAUTHORIZED\<close> and nothing else is posted; the admin without text gets the one reply
  asking for a message and nothing else is posted; the admin with text has the text
  posted to every subscriber, in order, and then gets the reply carrying the number of
  those posts that succeeded. No file is written.
\<close>

theorem broadcast_command:
  assumes "text_field msg = Some t" and "command_of t = ''/broadcast''"
    and "users_file w = Stored us"
  shows "(\<not> is_admin e (chat_id msg) \<longrightarrow>
            processUpdate e (Some msg) w =
              (w\<lparr>outbox := outbox w
                   @ [(IdNum (chat_id msg), UNAUTHORIZED, net e (length (outbox w)))]\<rparr>, None))
       \<and> (is_admin e (chat_id msg) \<and> args_of t = [] \<longrightarrow>
            processUpdate e (Some msg) w =
              (w\<lparr>outbox := outbox w
                   @ [(IdNum (chat_id msg), PROVIDE_MESSAGE, net e (length (outbox w)))]\<rparr>, None))
       \<and> (is_admin e (chat_id msg) \<and> args_of t \<noteq> [] \<longrightarrow>
            snd (processUpdate e (Some msg) w) = None
          \<and> outbox (fst (processUpdate e (Some msg) w))
              = outbox w @ sent_since w (fst (processUpdate e (Some msg) w))
          \<and> addressed (sent_since w (fst (processUpdate e (Some msg) w)))
              = map (\<lambda>u. (IdNum (chatId u), Text (args_of t))) us
                @ [(IdNum (chat_id msg),
                    BROADCAST_SENT
                      (length (delivered (take (length us)
                         (sent_since w (fst (processUpdate e (Some msg) w)))))))]
          \<and> users_file (fst (processUpdate e (Some msg) w)) = users_file w
          \<and> data_file (fst (processUpdate e (Some msg) w)) = data_file w)"
proof (intro conjI impI)
  assume "\<not> is_admin e (chat_id msg)"
  then show "processUpdate e (Some msg) w =
      (w\<lparr>outbox := outbox w @ [(IdNum (chat_id msg), UNAUTHORIZED, net e (length (outbox w)))]\<rparr>,
       None)"
    by (simp add: processUpdate_broadcast [OF assms(1,2)] send_eq)
next
  assume "is_admin e (chat_id msg) \<and> args_of t = []"
  then show "processUpdate e (Some msg) w =
      (w\<lparr>outbox := outbox w @ [(IdNum (chat_id msg), PROVIDE_MESSAGE, net e (length (outbox w)))]\<rparr>,
       None)"
    by (simp add: processUpdate_broadcast [OF assms(1,2)] send_eq)
next
  assume a: "is_admin e (chat_id msg) \<and> args_of t \<noteq> []"
  let ?d = "deliveries e (Text (args_of t)) us (length (outbox w))"
  let ?r = "(IdNum (chat_id msg), BROADCAST_SENT (length (delivered ?d)),
             net e (length (outbox w) + length us))"
  have p: "processUpdate e (Some msg) w = (w\<lparr>outbox := outbox w @ ?d @ [?r]\<rparr>, None)"
    using a
    by (simp add: processUpdate_broadcast [OF assms(1,2)] broadcast_Stored [OF assms(3)]
        send_eq length_deliveries)
  have s: "sent_since w (fst (processUpdate e (Some msg) w)) = ?d @ [?r]"
    unfolding p by (simp add: sent_since_def)
  show "snd (processUpdate e (Some msg) w) = None" by (simp add: p)
  show "outbox (fst (processUpdate e (Some msg) w))
          = outbox w @ sent_since w (fst (processUpdate e (Some msg) w))"
    unfolding s by (simp add: p)
  show "addressed (sent_since w (fst (processUpdate e (Some msg) w)))
          = map (\<lambda>u. (IdNum (chatId u), Text (args_of t))) us
            @ [(IdNum (chat_id msg),
                BROADCAST_SENT
                  (length (delivered (take (length us)
                     (sent_since w (fst (processUpdate e (Some msg) w)))))))]"
    unfolding s
    by (simp add: addressed_append addressed_deliveries length_deliveries) (simp add: addressed_def)
  show "users_file (fst (processUpdate e (Some msg) w)) = users_file w"
    by (simp add: p)
  show "data_file (fst (processUpdate e (Some msg) w)) = data_file w"
    by (simp add: p)
qed

theorem broadcast_command_witness:
  "users_file world0 = Stored [ann, bob, cat]
   \<and> text_field msg_eve = Some ''/broadcast hello''
   \<and> command_of ''/broadcast hello'' = ''/broadcast''
   \<and> \<not> is_admin env0 (chat_id msg_eve)
   \<and> processUpdate env0 (Some msg_eve) world0
       = (world0\<lparr>outbox := [(IdNum 5, UNAUTHORIZED, True)]\<rparr>, None)
   \<and> text_field msg_boss_empty = Some ''/broadcast  ''
   \<and> command_of ''/broadcast  '' = ''/broadcast''
   \<and> is_admin env0 (chat_id msg_boss_empty) \<and> args_of ''/broadcast  '' = []
   \<and> processUpdate env0 (Some msg_boss_empty) world0
       = (world0\<lparr>outbox := [(IdNum 99, PROVIDE_MESSAGE, True)]\<rparr>, None)
   \<and> text_field msg_boss = Some ''/broadcast  hello all ''
   \<and> command_of ''/broadcast  hello all '' = ''/broadcast''
   \<and> is_admin env0 (chat_id msg_boss) \<and> args_of ''/broadcast  hello all '' = ''hello all''
   \<and> addressed (sent_since world0 (fst (processUpdate env0 (Some msg_boss) world0)))
       = [(IdNum 11, Text ''hello all''), (IdNum 22, Text ''hello all''),
          (IdNum (-33), Text ''hello all''), (IdNum 99, BROADCAST_SENT 2)]"
proof -
  have u: "users_file world0 = Stored [ann, bob, cat]" by (simp add: world0_def)
  have t1: "text_field msg_eve = Some ''/broadcast hello''" by (simp add: msg_eve_def)
  have c1: "command_of ''/broadcast hello'' = ''/broadcast''" by (simp add: command_of_def)
  have a1: "\<not> is_admin env0 (chat_id msg_eve)"
    by (simp add: is_admin_def toString_def digits.simps env0_def msg_eve_def)
  have t2: "text_field msg_boss_empty = Some ''/broadcast  ''" by (simp add: msg_boss_empty_def)
  have c2: "command_of ''/broadcast  '' = ''/broadcast''" by (simp add: command_of_def)
  have a2: "is_admin env0 (chat_id msg_boss_empty)"
    by (simp add: is_admin_def toString_def digits.simps env0_def msg_boss_empty_def)
  have g2: "args_of ''/broadcast  '' = []"
    by (simp add: args_of_def command_of_def trim_def js_space_def)
  have t3: "text_field msg_boss = Some ''/broadcast  hello all ''" by (simp add: msg_boss_def)
  have c3: "command_of ''/broadcast  hello all '' = ''/broadcast''" by (simp add: command_of_def)
  have a3: "is_admin env0 (chat_id msg_boss)"
    by (simp add: is_admin_def toString_def digits.simps env0_def msg_boss_def)
  have g3: "args_of ''/broadcast  hello all '' = ''hello all''"
    by (simp add: args_of_def command_of_def trim_def js_space_def)
  have n: "net env0 0" "length (outbox world0) = 0" "chat_id msg_eve = 5"
    "chat_id msg_boss_empty = 99" "chat_id msg_boss = 99"
    by (simp_all add: env0_def world0_def msg_eve_def msg_boss_empty_def msg_boss_def)
  from broadcast_command [OF t1 c1 u, of env0] a1
  have r1: "processUpdate env0 (Some msg_eve) world0
       = (world0\<lparr>outbox := [(IdNum 5, UNAUTHORIZED, True)]\<rparr>, None)"
    by (simp add: n) (simp add: world0_def)
  from broadcast_command [OF t2 c2 u, of env0] a2 g2
  have r2: "processUpdate env0 (Some msg_boss_empty) world0
       = (world0\<lparr>outbox := [(IdNum 99, PROVIDE_MESSAGE, True)]\<rparr>, None)"
    by (simp add: n) (simp add: world0_def)
  have d: "delivered (take (Suc (Suc (Suc 0))) (sent_since world0 (fst (processUpdate env0 (Some msg_boss) world0))))
      = [(IdNum 11, Text ''hello all'', True), (IdNum (-33), Text ''hello all'', True)]"
    using a3
    by (simp add: processUpdate_broadcast [OF t3 c3] g3 broadcast_Stored [OF u] send_eq
        sent_since_append delivered_def n)
      (simp add: env0_def ann_def bob_def cat_def)
  from broadcast_command [OF t3 c3 u, of env0] a3 g3
  have r3: "addressed (sent_since world0 (fst (processUpdate env0 (Some msg_boss) world0)))
       = [(IdNum 11, Text ''hello all''), (IdNum 22, Text ''hello all''),
          (IdNum (-33), Text ''hello all''), (IdNum 99, BROADCAST_SENT 2)]"
    by (simp add: d n ann_def bob_def cat_def)
  from u t1 c1 a1 r1 t2 c2 a2 g2 r2 t3 c3 a3 g3 r3 show ?thesis by blast
qed

end
